theory Spec2Isabelle
  imports Main
begin

section \<open>Values of the scraper\<close>

text \<open>
  The development embeds \<^verbatim>\<open>src/glassdoor_scraper.py\<close>. A Python \<^verbatim>\<open>str\<close> read
  from the page is a sequence of Unicode code points, and \<^verbatim>\<open>len\<close> counts code points,
  so page text is a list of naturals. The selectors and scripts of the source are ASCII
  literals and stay HOL strings; \<open>lit\<close> reads such a literal as a Python string.
\<close>

type_synonym pystr = "nat list"

definition lit :: "string \<Rightarrow> pystr" where
  "lit s = map of_char s"

text \<open>
  The exceptions the source tells apart (\<^verbatim>\<open>TimeoutException\<close> at lines 150 and 200,
  \<^verbatim>\<open>NoSuchElementException\<close> at line 290), the one the interpreter itself raises on a
  missing attribute, and two more for every other failure of the browser library or the
  operating system. All of them are subclasses of \<^verbatim>\<open>Exception\<close>, so \<^verbatim>\<open>except:\<close> and
  \<^verbatim>\<open>except Exception:\<close> catch the same values here.
\<close>

datatype exn =
    NoSuchElementException
  | TimeoutException
  | ElementClickInterceptedException
  | WebDriverException
  | AttributeError
  | OSError

datatype By = CSS_SELECTOR | XPATH

text \<open>A \<^verbatim>\<open>WebElement\<close> is a handle into the page.\<close>

type_synonym elem = nat

text \<open>
  \<^verbatim>\<open>Options()\<close> with what lines 88 to 105 put into it.
\<close>

datatype option_value = Switches "string list" | Flag bool

record chrome_options =
  arguments :: "pystr list"
  experimental_options :: "(string \<times> option_value) list"
  binary_location :: "pystr"

section \<open>The browser session\<close>

text \<open>
  The browser is outside the program. It is a parameter: a record of the operations the
  source calls, over a world \<open>'w\<close> that stands for the remote browser with its page.
  Queries (\<^verbatim>\<open>find_element\<close>, \<^verbatim>\<open>find_elements\<close>, \<^verbatim>\<open>.text\<close>, \<^verbatim>\<open>is_enabled\<close>,
  \<^verbatim>\<open>is_displayed\<close>, \<^verbatim>\<open>get_attribute\<close>) read the world and return a value or raise.
  Commands (\<^verbatim>\<open>click\<close>, \<^verbatim>\<open>execute_script\<close>, \<^verbatim>\<open>execute_cdp_cmd\<close>, \<^verbatim>\<open>get\<close>,
  \<^verbatim>\<open>webdriver.Chrome\<close>) return the next world and the exception they raised, if any.
  \<open>wait_presence t css\<close> is \<^verbatim>\<open>WebDriverWait(driver, t).until(
  EC.presence_of_element_located((By.CSS_SELECTOR, css)))\<close>, and \<open>sleep ms\<close> is
  \<^verbatim>\<open>time.sleep\<close> in milliseconds: the page may change while the program waits.
  \<open>chrome True\<close> is \<^verbatim>\<open>webdriver.Chrome(service=Service(ChromeDriverManager().install()),
  options=options)\<close>, \<open>chrome False\<close> is \<^verbatim>\<open>webdriver.Chrome(options=options)\<close>.
  \<open>getcwd\<close> is \<^verbatim>\<open>os.getcwd()\<close>.
\<close>

record 'w webdriver =
  find_element :: "'w \<Rightarrow> By \<Rightarrow> string \<Rightarrow> exn + elem"
  find_elements :: "'w \<Rightarrow> By \<Rightarrow> string \<Rightarrow> exn + elem list"
  element_find_element :: "'w \<Rightarrow> elem \<Rightarrow> By \<Rightarrow> string \<Rightarrow> exn + elem"
  element_text :: "'w \<Rightarrow> elem \<Rightarrow> exn + pystr"
  is_enabled :: "'w \<Rightarrow> elem \<Rightarrow> exn + bool"
  is_displayed :: "'w \<Rightarrow> elem \<Rightarrow> exn + bool"
  get_attribute :: "'w \<Rightarrow> elem \<Rightarrow> string \<Rightarrow> exn + pystr option"
  click :: "elem \<Rightarrow> 'w \<Rightarrow> exn option \<times> 'w"
  execute_script :: "string \<Rightarrow> elem list \<Rightarrow> 'w \<Rightarrow> exn option \<times> 'w"
  execute_cdp_cmd :: "string \<Rightarrow> string \<Rightarrow> 'w \<Rightarrow> exn option \<times> 'w"
  get :: "pystr \<Rightarrow> 'w \<Rightarrow> exn option \<times> 'w"
  wait_presence :: "nat \<Rightarrow> string \<Rightarrow> 'w \<Rightarrow> (exn + elem) \<times> 'w"
  sleep :: "nat \<Rightarrow> 'w \<Rightarrow> 'w"
  chrome :: "bool \<Rightarrow> chrome_options \<Rightarrow> 'w \<Rightarrow> exn option \<times> 'w"
  getcwd :: "exn + pystr"

section \<open>safe\_find (lines 37 to 53)\<close>

text \<open>
  \<^verbatim>\<open>str.strip()\<close> removes the code points Python counts as whitespace from both ends.
\<close>

definition isspace :: "nat \<Rightarrow> bool" where
  "isspace c \<longleftrightarrow>
     (9 \<le> c \<and> c \<le> 13) \<or> (28 \<le> c \<and> c \<le> 32) \<or> c = 133 \<or> c = 160 \<or> c = 5760
     \<or> (8192 \<le> c \<and> c \<le> 8202) \<or> c = 8232 \<or> c = 8233 \<or> c = 8239 \<or> c = 8287
     \<or> c = 12288"

definition strip :: "pystr \<Rightarrow> pystr" where
  "strip s = rev (dropWhile isspace (rev (dropWhile isspace s)))"

text \<open>
  The argument \<^verbatim>\<open>selectors_list\<close> is a single string or a list of strings (line 39).
\<close>

datatype selectors = Str string | Lst "string list"

fun as_list :: "selectors \<Rightarrow> string list" where
  "as_list (Str s) = [s]"
| "as_list (Lst ss) = ss"

text \<open>\<^verbatim>\<open>selector.startswith(("//", ".//"))\<close>, line 44.\<close>

definition is_xpath :: "string \<Rightarrow> bool" where
  "is_xpath selector \<longleftrightarrow> take 2 selector = ''//'' \<or> take 3 selector = ''.//''"

text \<open>
  The body of the \<^verbatim>\<open>try\<close> of lines 44 to 48: the text of the element the selector
  resolves to, stripped, or the exception raised on the way.
\<close>

definition locate :: "'w webdriver \<Rightarrow> 'w \<Rightarrow> elem \<Rightarrow> string \<Rightarrow> exn + pystr" where
  "locate D w base_element selector =
     (case element_find_element D w base_element
             (if is_xpath selector then XPATH else CSS_SELECTOR) selector of
        Inl e \<Rightarrow> Inl e
      | Inr element \<Rightarrow>
          (case element_text D w element of
             Inl e \<Rightarrow> Inl e
           | Inr t \<Rightarrow> Inr (strip t)))"

text \<open>
  The \<^verbatim>\<open>for\<close> loop of lines 42 to 53: a non-empty text returns, an empty text goes on
  to the next selector, and so does any exception (\<^verbatim>\<open>except: continue\<close>).
\<close>

fun safe_find_loop :: "'w webdriver \<Rightarrow> 'w \<Rightarrow> elem \<Rightarrow> string list \<Rightarrow> pystr \<Rightarrow> pystr" where
  "safe_find_loop D w base_element [] dflt = dflt"
| "safe_find_loop D w base_element (selector # rest) dflt =
     (case locate D w base_element selector of
        Inl e \<Rightarrow> safe_find_loop D w base_element rest dflt
      | Inr t \<Rightarrow> if t \<noteq> [] then t else safe_find_loop D w base_element rest dflt)"

definition safe_find :: "'w webdriver \<Rightarrow> 'w \<Rightarrow> elem \<Rightarrow> selectors \<Rightarrow> pystr \<Rightarrow> pystr" where
  "safe_find D w base_element selectors_list dflt =
     safe_find_loop D w base_element (as_list selectors_list) dflt"

text \<open>The value of the parameter \<^verbatim>\<open>default\<close> (here \<open>dflt\<close>) when a call leaves it out, line 37.\<close>

definition sentinel :: pystr where
  "sentinel = lit ''-1''"

section \<open>close\_any\_modal (lines 55 to 74)\<close>

definition close_selectors :: "string list" where
  "close_selectors =
     [''button[data-test='close-modal']'',
      ''button[aria-label='Close']'',
      ''button.CloseButton'',
      ''svg[data-test='close-icon']'',
      ''span[aria-label='Close']'']"

text \<open>
  The body of the inner \<^verbatim>\<open>try\<close>, lines 67 to 69: find the button, click it, sleep a
  second. It ends normally (and line 70 returns) or with the exception raised.
\<close>

definition close_attempt :: "'w webdriver \<Rightarrow> string \<Rightarrow> 'w \<Rightarrow> exn option \<times> 'w" where
  "close_attempt D selector w =
     (case find_element D w CSS_SELECTOR selector of
        Inl e \<Rightarrow> (Some e, w)
      | Inr close_btn \<Rightarrow>
          (case click D close_btn w of
             (Some e, w1) \<Rightarrow> (Some e, w1)
           | (None, w1) \<Rightarrow> (None, sleep D 1000 w1)))"

text \<open>
  The \<^verbatim>\<open>for\<close> loop of lines 65 to 72: \<^verbatim>\<open>return\<close> after the first attempt that ends
  normally, \<^verbatim>\<open>except: pass\<close> after one that raised.
\<close>

fun close_loop :: "'w webdriver \<Rightarrow> string list \<Rightarrow> 'w \<Rightarrow> exn option \<times> 'w" where
  "close_loop D [] w = (None, w)"
| "close_loop D (selector # rest) w =
     (case close_attempt D selector w of
        (None, w1) \<Rightarrow> (None, w1)
      | (Some e, w1) \<Rightarrow> close_loop D rest w1)"

text \<open>The outer \<^verbatim>\<open>try\<close> with \<^verbatim>\<open>except Exception: pass\<close>, lines 57 and 73.\<close>

definition close_any_modal :: "'w webdriver \<Rightarrow> 'w \<Rightarrow> exn option \<times> 'w" where
  "close_any_modal D w =
     (case close_loop D close_selectors w of
        (Some e, w1) \<Rightarrow> (None, w1)
      | (None, w1) \<Rightarrow> (None, w1))"

section \<open>One listing card (lines 180 to 232)\<close>

text \<open>
  A record of line 221 is a Python dict; its keys keep the order in which they were
  written, which is the order of the columns later.
\<close>

type_synonym job_data = "(string \<times> pystr) list"

text \<open>The expression of line 224.\<close>

definition description_field :: "pystr \<Rightarrow> pystr" where
  "description_field job_description =
     (if length job_description > 500 then take 500 job_description @ lit ''...''
      else job_description)"

text \<open>Lines 206 to 228: fourteen calls of \<^verbatim>\<open>safe_find\<close> and the dict built from them.\<close>

definition job_data_of :: "'w webdriver \<Rightarrow> 'w \<Rightarrow> elem \<Rightarrow> job_data" where
  "job_data_of D w detail_pane =
     (let job_title = safe_find D w detail_pane
            (Lst [''h1.heading_Level1__w42c9'', ''h1[id*='jd-job-title-']'',
                  ''div[data-test='jobTitle']'']) sentinel;
          company_name = safe_find D w detail_pane
            (Lst [''div.EmployerProfile_employerNameHeading__bXBYr'',
                  ''div[data-test='employerName']'']) sentinel;
          rating = safe_find D w detail_pane
            (Lst [''span.rating-single-star_RatingText__5fdjN'',
                  ''span[data-test='detailRating']'']) sentinel;
          location = safe_find D w detail_pane (Lst [''div[data-test='location']'']) sentinel;
          salary_estimate = safe_find D w detail_pane
            (Lst [''div[data-test='detailSalary']'', ''span[data-test='detailSalary']''])
            sentinel;
          job_description = safe_find D w detail_pane
            (Lst [''div.JobDetails_jobDescription__uW_fK'',
                  ''div[data-test='jobDescriptionText']'']) sentinel;
          headquarters = safe_find D w detail_pane
            (Lst [''.//div[span[text()='Headquarters']]/div'']) sentinel;
          size_text = safe_find D w detail_pane
            (Lst [''.//div[span[text()='Size']]/div'']) sentinel;
          founded = safe_find D w detail_pane
            (Lst [''.//div[span[text()='Founded']]/div'']) sentinel;
          type_of_ownership = safe_find D w detail_pane
            (Lst [''.//div[span[text()='Type']]/div'']) sentinel;
          industry = safe_find D w detail_pane
            (Lst [''.//div[span[text()='Industry']]/div'']) sentinel;
          sector = safe_find D w detail_pane
            (Lst [''.//div[span[text()='Sector']]/div'']) sentinel;
          revenue = safe_find D w detail_pane
            (Lst [''.//div[span[text()='Revenue']]/div'']) sentinel;
          competitors = safe_find D w detail_pane
            (Lst [''.//div[span[text()='Competitors']]/div'']) sentinel
      in [(''Job Title'', job_title), (''Company'', company_name), (''Location'', location),
          (''Salary Estimate'', salary_estimate), (''Rating'', rating),
          (''Description'', description_field job_description),
          (''Headquarters'', headquarters), (''Size'', size_text), (''Founded'', founded),
          (''Ownership'', type_of_ownership), (''Industry'', industry), (''Sector'', sector),
          (''Revenue'', revenue), (''Competitors'', competitors)])"

text \<open>
  A tabular file is its rows, the header first; the file system maps a path to the file
  at it.
\<close>

type_synonym csv = "pystr list list"
type_synonym filesystem = "string \<rightharpoonup> csv"

text \<open>
  The variables of \<^verbatim>\<open>get_jobs\<close> that change in the loop (lines 133 to 139), the
  browser and the file system.
\<close>

record 'w state =
  jobs :: "job_data list"
  page_num :: int
  scraped_card_count :: nat
  driver :: 'w
  files :: filesystem

definition max_pages :: int where
  "max_pages = 10"

text \<open>
  Lines 182 to 194, the outer \<^verbatim>\<open>try\<close>: scroll the card into view, click it, and click
  it by script when the click raised. An exception that leaves this block is the one
  \<^verbatim>\<open>except Exception\<close> of line 191 catches. The variable \<^verbatim>\<open>card\<close> is \<open>job_card\<close>
  here.
\<close>

definition activate_card :: "'w webdriver \<Rightarrow> elem \<Rightarrow> 'w \<Rightarrow> exn option \<times> 'w" where
  "activate_card D job_card w =
     (case execute_script D
             ''arguments[0].scrollIntoView({behavior: 'smooth', block: 'center'});'' [job_card] w of
        (Some e, w1) \<Rightarrow> (Some e, w1)
      | (None, w1) \<Rightarrow>
          (case click D job_card (sleep D 400 w1) of
             (None, w2) \<Rightarrow> (None, sleep D 2000 w2)
           | (Some e, w2) \<Rightarrow>
               (case execute_script D ''arguments[0].click();'' [job_card] w2 of
                  (Some e', w3) \<Rightarrow> (Some e', w3)
                | (None, w3) \<Rightarrow> (None, sleep D 2000 w3))))"

text \<open>
  The body of the \<^verbatim>\<open>for\<close> loop after the test of line 177. It ends normally, also
  where the source says \<^verbatim>\<open>continue\<close> (lines 194 and 203), or with an exception that
  nothing in \<^verbatim>\<open>get_jobs\<close> catches.
\<close>

definition process_card :: "'w webdriver \<Rightarrow> elem \<Rightarrow> 'w state \<Rightarrow> exn option \<times> 'w state" where
  "process_card D job_card st =
     (case close_any_modal D (driver st) of
        (Some e, w1) \<Rightarrow> (Some e, st\<lparr>driver := w1\<rparr>)
      | (None, w1) \<Rightarrow>
          (case activate_card D job_card w1 of
             (Some e, w2) \<Rightarrow> (None, st\<lparr>driver := w2\<rparr>)
           | (None, w2) \<Rightarrow>
               (case wait_presence D 8
                       ''div[data-test='job-details-panel'], div[class*='JobDetails_jobDetails']''
                       w2 of
                  (Inl e, w3) \<Rightarrow>
                    if e = TimeoutException then (None, st\<lparr>driver := w3\<rparr>)
                    else (Some e, st\<lparr>driver := w3\<rparr>)
                | (Inr detail_pane, w3) \<Rightarrow>
                    (None, st\<lparr>driver := w3,
                               jobs := jobs st @ [job_data_of D w3 detail_pane]\<rparr>))))"

text \<open>
  The \<^verbatim>\<open>for\<close> loop of lines 176 to 232 over the new cards; the first branch is the
  \<^verbatim>\<open>break\<close> of line 178. The index \<^verbatim>\<open>idx\<close> is only printed.
\<close>

fun for_cards :: "'w webdriver \<Rightarrow> int \<Rightarrow> elem list \<Rightarrow> 'w state \<Rightarrow> exn option \<times> 'w state" where
  "for_cards D num_jobs [] st = (None, st)"
| "for_cards D num_jobs (job_card # rest) st =
     (if int (length (jobs st)) \<ge> num_jobs then (None, st)
      else (case process_card D job_card st of
              (Some e, st1) \<Rightarrow> (Some e, st1)
            | (None, st1) \<Rightarrow> for_cards D num_jobs rest st1))"

section \<open>Writing the table\<close>

text \<open>
  \<^verbatim>\<open>pd.DataFrame(jobs)\<close> of a list of dicts with the same keys: the columns are the
  keys in their order, a row holds the values of one dict; no dict, no column.
\<close>

record dataframe =
  columns :: "string list"
  rows :: "pystr list list"

definition DataFrame :: "job_data list \<Rightarrow> dataframe" where
  "DataFrame js =
     \<lparr>columns = (case js of [] \<Rightarrow> [] | j # _ \<Rightarrow> map fst j), rows = map (map snd) js\<rparr>"

text \<open>
  \<^verbatim>\<open>df.to_csv(path, index=False)\<close>, line 327: the header row and the data rows replace
  whatever was at the path.
\<close>

definition dataframe_to_csv :: "dataframe \<Rightarrow> string \<Rightarrow> filesystem \<Rightarrow> exn option \<times> filesystem" where
  "dataframe_to_csv df path fs = (None, fs(path \<mapsto> map lit (columns df) # rows df))"

text \<open>
  Line 234 is \<^verbatim>\<open>jobs.to_csv("glassdoor_jobs.csv", index=False)\<close>, and \<^verbatim>\<open>jobs\<close> is the
  built-in list of line 133, filled by \<^verbatim>\<open>jobs.append\<close> at line 230 and turned into a
  DataFrame only at line 311. A list has no attribute \<^verbatim>\<open>to_csv\<close>: looking it up
  raises \<^verbatim>\<open>AttributeError\<close> before anything is called, whatever the list holds, and no
  file is touched. The statement is in no \<^verbatim>\<open>try\<close>.
\<close>

definition list_to_csv :: "job_data list \<Rightarrow> string \<Rightarrow> filesystem \<Rightarrow> exn option \<times> filesystem" where
  "list_to_csv js path fs = (Some AttributeError, fs)"

section \<open>The continuation (lines 237 to 302)\<close>

text \<open>
  How one pass of the \<^verbatim>\<open>while\<close> body ends: at the loop's test again
  (\<^verbatim>\<open>continue\<close>, or the end of the body), at a \<^verbatim>\<open>break\<close>, or with an exception that
  leaves \<^verbatim>\<open>get_jobs\<close>. The reason names the \<^verbatim>\<open>break\<close> taken; the source only prints a
  message there.
\<close>

datatype stop_reason =
    ConditionFalse
  | NoListings
  | NoCards
  | NoContinuation
  | NavigationError

datatype 'w step =
    Continue "'w state"
  | Break stop_reason "'w state"
  | Raise exn "'w state"

text \<open>
  CASE 1, the \<^verbatim>\<open>try\<close> of lines 241 to 263. \<open>True\<close> is the \<^verbatim>\<open>continue\<close> of line 260,
  after the click; \<open>False\<close> is every other way out: the button is disabled or hidden, or
  something raised and \<^verbatim>\<open>except:\<close> caught it. \<^verbatim>\<open>navigated\<close> is \<^verbatim>\<open>False\<close> in all of
  these, since line 257 is followed by \<^verbatim>\<open>continue\<close>.
\<close>

definition show_more :: "'w webdriver \<Rightarrow> elem list \<Rightarrow> 'w state \<Rightarrow> bool \<times> 'w state" where
  "show_more D all_job_cards st =
     (case execute_script D ''window.scrollTo(0, document.body.scrollHeight);'' []
             (driver st) of
        (Some e, w1) \<Rightarrow> (False, st\<lparr>driver := w1\<rparr>)
      | (None, w1) \<Rightarrow>
          (let w2 = sleep D 2000 w1 in
           case find_element D w2 CSS_SELECTOR ''button[data-test='load-more']'' of
             Inl e \<Rightarrow> (False, st\<lparr>driver := w2\<rparr>)
           | Inr show_more_btn \<Rightarrow>
               (case is_enabled D w2 show_more_btn of
                  Inl e \<Rightarrow> (False, st\<lparr>driver := w2\<rparr>)
                | Inr enabled \<Rightarrow>
                    if \<not> enabled then (False, st\<lparr>driver := w2\<rparr>)
                    else
                      (case is_displayed D w2 show_more_btn of
                         Inl e \<Rightarrow> (False, st\<lparr>driver := w2\<rparr>)
                       | Inr displayed \<Rightarrow>
                           if \<not> displayed then (False, st\<lparr>driver := w2\<rparr>)
                           else
                             (case click D show_more_btn w2 of
                                (Some e, w3) \<Rightarrow> (False, st\<lparr>driver := w3\<rparr>)
                              | (None, w3) \<Rightarrow>
                                  (True, st\<lparr>driver := sleep D 4000 w3,
                                            scraped_card_count := length all_job_cards\<rparr>))))))"

text \<open>
  CASE 2, lines 266 to 302, entered with \<^verbatim>\<open>navigated = False\<close>: the link, its
  \<^verbatim>\<open>href\<close>, the navigation. Both \<^verbatim>\<open>except\<close> clauses \<^verbatim>\<open>break\<close>; an absent or empty
  \<^verbatim>\<open>href\<close> falls through to the \<^verbatim>\<open>break\<close> of line 302.
\<close>

definition see_more :: "'w webdriver \<Rightarrow> 'w state \<Rightarrow> 'w step" where
  "see_more D st =
     (case find_element D (driver st) XPATH ''//a[contains(., 'See more jobs')]'' of
        Inl e \<Rightarrow>
          Break (if e = NoSuchElementException then NoContinuation else NavigationError) st
      | Inr more_jobs_link \<Rightarrow>
          (case get_attribute D (driver st) more_jobs_link ''href'' of
             Inl e \<Rightarrow>
               Break (if e = NoSuchElementException then NoContinuation else NavigationError) st
           | Inr None \<Rightarrow> Break NoContinuation st
           | Inr (Some new_url) \<Rightarrow>
               if new_url = [] then Break NoContinuation st
               else
                 (case get D new_url (driver st) of
                    (Some e, w1) \<Rightarrow>
                      Break (if e = NoSuchElementException then NoContinuation
                             else NavigationError) (st\<lparr>driver := w1\<rparr>)
                  | (None, w1) \<Rightarrow>
                      (case close_any_modal D (sleep D 5000 w1) of
                         (Some e, w2) \<Rightarrow>
                           Break (if e = NoSuchElementException then NoContinuation
                                  else NavigationError) (st\<lparr>driver := w2\<rparr>)
                       | (None, w2) \<Rightarrow>
                           Continue (st\<lparr>driver := w2, scraped_card_count := 0,
                                        page_num := 1\<rparr>)))))"

text \<open>Lines 237 to 302 as a whole.\<close>

definition continuation :: "'w webdriver \<Rightarrow> int \<Rightarrow> elem list \<Rightarrow> 'w state \<Rightarrow> 'w step" where
  "continuation D num_jobs all_job_cards st =
     (if int (length (jobs st)) < num_jobs then
        (case show_more D all_job_cards st of
           (True, st1) \<Rightarrow> Continue st1
         | (False, st1) \<Rightarrow> see_more D st1)
      else Continue st)"

section \<open>The collection loop (lines 142 to 304)\<close>

definition listing_css :: string where
  "listing_css = ''li[data-test='jobListing'], li.JobsList_jobListItem__wjThv, div[data-test='job-listing']''"

text \<open>
  Lines 155 to 157: the cards under the first selector, and under the second when
  there are none.
\<close>

definition find_job_cards :: "'w webdriver \<Rightarrow> 'w \<Rightarrow> exn + elem list" where
  "find_job_cards D w =
     (case find_elements D w CSS_SELECTOR ''li[data-test='jobListing']'' of
        Inl e \<Rightarrow> Inl e
      | Inr cs \<Rightarrow>
          if cs = [] then
            find_elements D w CSS_SELECTOR
              ''li.JobsList_jobListItem__wjThv, div[data-test='job-listing']''
          else Inr cs)"

text \<open>
  One pass of the body of the \<^verbatim>\<open>while\<close> loop: the wait of line 147, the cards, the
  slice of line 161, the \<^verbatim>\<open>for\<close> loop, line 234, the continuation.
\<close>

definition loop_body :: "'w webdriver \<Rightarrow> int \<Rightarrow> 'w state \<Rightarrow> 'w step" where
  "loop_body D num_jobs st =
     (case wait_presence D 10 listing_css (driver st) of
        (Inl e, w1) \<Rightarrow>
          if e = TimeoutException then Break NoListings (st\<lparr>driver := w1\<rparr>)
          else Raise e (st\<lparr>driver := w1\<rparr>)
      | (Inr found, w1) \<Rightarrow>
          (case find_job_cards D w1 of
             Inl e \<Rightarrow> Raise e (st\<lparr>driver := w1\<rparr>)
           | Inr all_job_cards \<Rightarrow>
               (let new_job_cards = drop (scraped_card_count st) all_job_cards in
                if all_job_cards = [] then Break NoCards (st\<lparr>driver := w1\<rparr>)
                else
                  (case for_cards D num_jobs new_job_cards (st\<lparr>driver := w1\<rparr>) of
                     (Some e, st1) \<Rightarrow> Raise e st1
                   | (None, st1) \<Rightarrow>
                       (case list_to_csv (jobs st1) ''glassdoor_jobs.csv'' (files st1) of
                          (Some e, fs) \<Rightarrow> Raise e (st1\<lparr>files := fs\<rparr>)
                        | (None, fs) \<Rightarrow>
                            continuation D num_jobs all_job_cards (st1\<lparr>files := fs\<rparr>))))))"

text \<open>
  How the loop ends: its test is false or a \<^verbatim>\<open>break\<close> was taken (with the reason), or an
  exception left it.
\<close>

datatype 'w finish =
    Finished stop_reason "'w state"
  | Aborted exn "'w state"

text \<open>
  The \<^verbatim>\<open>while\<close> loop of line 142. Nothing in its text bounds the number of passes, so it
  is a partial function: \<open>None\<close> is a run that never leaves the loop.
\<close>

partial_function (option) while_loop :: "'w webdriver \<Rightarrow> int \<Rightarrow> 'w state \<Rightarrow> 'w finish option" where
  "while_loop D num_jobs st =
     (if int (length (jobs st)) < num_jobs \<and> page_num st \<le> max_pages then
        (case loop_body D num_jobs st of
           Continue st1 \<Rightarrow> while_loop D num_jobs st1
         | Break r st1 \<Rightarrow> Some (Finished r st1)
         | Raise e st1 \<Rightarrow> Some (Aborted e st1))
      else Some (Finished ConditionFalse st))"

section \<open>get\_jobs (lines 76 to 311)\<close>

text \<open>
  Lines 79 to 81: the value of \<^verbatim>\<open>headless\<close> after the guard. The warning of line 80
  is printed output, which the model leaves out like every other \<^verbatim>\<open>print\<close>.
\<close>

definition headless_guard :: "bool \<Rightarrow> bool" where
  "headless_guard headless = (if headless then False else headless)"

text \<open>\<^verbatim>\<open>os.path.join(a, b)\<close> on Linux, for a relative \<open>b\<close>.\<close>

definition path_join :: "pystr \<Rightarrow> pystr \<Rightarrow> pystr" where
  "path_join a b = (if a = [] \<or> last a = of_char CHR ''/'' then a @ b else a @ lit ''/'' @ b)"

text \<open>
  Lines 83 to 107: the options of the browser. The profile argument is left out when
  \<^verbatim>\<open>os.getcwd()\<close> raised (the \<^verbatim>\<open>except\<close> of line 89). The variable \<^verbatim>\<open>headless\<close> is
  not read here, nor anywhere after line 81.
\<close>

definition build_options :: "exn + pystr \<Rightarrow> chrome_options" where
  "build_options cwd =
     \<lparr>arguments =
        (case cwd of
           Inl e \<Rightarrow> []
         | Inr dir \<Rightarrow> [lit ''--user-data-dir='' @ path_join dir (lit ''chrome_profile'')])
        @ [lit ''--no-sandbox'', lit ''--disable-dev-shm-usage'', lit ''--disable-gpu'',
           lit ''--window-size=1920,1080'', lit ''--start-maximized'',
           lit ''--disable-blink-features=AutomationControlled'',
           lit ''--remote-debugging-port=9222'',
           lit ''user-agent=Mozilla/5.0 (X11; Linux x86_64) AppleWebKit/537.36 (KHTML, like Gecko) Chrome/120.0.0.0 Safari/537.36''],
      experimental_options =
        [(''excludeSwitches'', Switches [''enable-automation'']),
         (''useAutomationExtension'', Flag False)],
      binary_location = lit ''/usr/bin/chromium-browser''\<rparr>"

definition search_url :: "pystr \<Rightarrow> pystr" where
  "search_url keyword =
     lit ''https://www.glassdoor.com/Job/jobs.htm?sc.keyword='' @ keyword
       @ lit ''&locT=&locId=jobType=''"

text \<open>
  Lines 108 to 131: start the browser (a second time without the managed service when
  the first start raised), hide the automation, open the search page, wait three
  seconds, close a modal. An exception here leaves \<^verbatim>\<open>get_jobs\<close>.
\<close>

definition open_session :: "'w webdriver \<Rightarrow> chrome_options \<Rightarrow> pystr \<Rightarrow> 'w \<Rightarrow> exn option \<times> 'w" where
  "open_session D options keyword w =
     (case (case chrome D True options w of
              (None, w1) \<Rightarrow> (None, w1)
            | (Some e, w1) \<Rightarrow> chrome D False options w1) of
        (Some e, w2) \<Rightarrow> (Some e, w2)
      | (None, w2) \<Rightarrow>
          (case execute_cdp_cmd D ''Network.setUserAgentOverride''
                  ''Mozilla/5.Example/5.0 (X11; Linux x86_64) AppleWebKit/537.36 (KHTML, like Gecko) Chrome/120.0.0.0 Safari/537.36''
                  w2 of
             (Some e, w3) \<Rightarrow> (Some e, w3)
           | (None, w3) \<Rightarrow>
               (case execute_script D
                       ''Object.defineProperty(navigator, 'webdriver', {get: () => undefined})''
                       [] w3 of
                  (Some e, w4) \<Rightarrow> (Some e, w4)
                | (None, w4) \<Rightarrow>
                    (case get D (search_url keyword) w4 of
                       (Some e, w5) \<Rightarrow> (Some e, w5)
                     | (None, w5) \<Rightarrow> close_any_modal D (sleep D 3000 w5)))))"

text \<open>Lines 133 to 139: the variables at the first test of the loop.\<close>

definition initial_state :: "'w \<Rightarrow> filesystem \<Rightarrow> 'w state" where
  "initial_state w fs =
     \<lparr>jobs = [], page_num = 1, scraped_card_count = 0, driver = w, files = fs\<rparr>"

text \<open>
  \<^verbatim>\<open>get_jobs\<close>: the DataFrame of line 311 or the exception that left the function, with
  the browser and the file system as the run left them; \<open>None\<close> when the loop never
  ends. \<^verbatim>\<open>verbose\<close> only switches printing, which is not part of the model.
\<close>

definition get_jobs ::
  "'w webdriver \<Rightarrow> pystr \<Rightarrow> int \<Rightarrow> bool \<Rightarrow> bool \<Rightarrow> 'w \<Rightarrow> filesystem
     \<Rightarrow> ((exn + dataframe) \<times> 'w \<times> filesystem) option" where
  "get_jobs D keyword num_jobs headless verbose w fs =
     (let headless = headless_guard headless;
          options = build_options (getcwd D)
      in case open_session D options keyword w of
           (Some e, w0) \<Rightarrow> Some (Inl e, w0, fs)
         | (None, w0) \<Rightarrow>
             (case while_loop D num_jobs (initial_state w0 fs) of
                None \<Rightarrow> None
              | Some (Aborted e st) \<Rightarrow> Some (Inl e, driver st, files st)
              | Some (Finished r st) \<Rightarrow> Some (Inr (DataFrame (jobs st)), driver st, files st)))"

text \<open>
  The script of lines 313 to 333: the only place that writes the file outside the loop,
  and only when the DataFrame has a row.
\<close>

definition main :: "'w webdriver \<Rightarrow> 'w \<Rightarrow> filesystem \<Rightarrow> (exn option \<times> 'w \<times> filesystem) option" where
  "main D w fs =
     (case get_jobs D (lit ''data scientist'') 2000 False True w fs of
        None \<Rightarrow> None
      | Some (Inl e, w1, fs1) \<Rightarrow> Some (Some e, w1, fs1)
      | Some (Inr df, w1, fs1) \<Rightarrow>
          if length (rows df) > 0 then
            (case dataframe_to_csv df ''glassdoor_jobs.csv'' fs1 of
               (r, fs2) \<Rightarrow> Some (r, w1, fs2))
          else Some (None, w1, fs1))"

section \<open>Notions the properties are stated with\<close>

text \<open>
  A selector is a non-match for \<^verbatim>\<open>safe_find\<close> when resolving it or reading the text
  raised, or when the stripped text is empty.
\<close>

definition misses :: "'w webdriver \<Rightarrow> 'w \<Rightarrow> elem \<Rightarrow> string \<Rightarrow> bool" where
  "misses D w base_element selector =
     (case locate D w base_element selector of Inl e \<Rightarrow> True | Inr t \<Rightarrow> t = [])"

text \<open>The variables after one pass of the body, however the pass ended.\<close>

fun step_state :: "'w step \<Rightarrow> 'w state" where
  "step_state (Continue st) = st"
| "step_state (Break r st) = st"
| "step_state (Raise e st) = st"

text \<open>The variables at the end of the loop, however it ended.\<close>

fun state_of :: "'w finish \<Rightarrow> 'w state" where
  "state_of (Finished r st) = st"
| "state_of (Aborted e st) = st"

section \<open>A simulated browser\<close>

text \<open>
  A small browser to run the program on: a page shows listing cards, a click on the
  `Show more' button (element 900) adds the pending cards, the `See more jobs' link
  (element 901) leads to a next page when it has a URL, a modal can be open with its
  `Close' button (element 902). Every card opens the same detail pane (element 903),
  which has a title and a description and nothing else. The browser records the
  clicks it received.
\<close>

record sim =
  shown :: "elem list"
  pending :: "elem list"
  more_url :: "pystr option"
  next_page :: "elem list"
  modal :: bool
  clicked :: "elem list"

definition sim_driver :: "sim webdriver" where
  "sim_driver =
     \<lparr>find_element = (\<lambda>w b sel.
         if sel = ''button[data-test='load-more']'' \<and> pending w \<noteq> [] then Inr 900
         else if sel = ''//a[contains(., 'See more jobs')]'' \<and> more_url w \<noteq> None then Inr 901
         else if sel = ''button[aria-label='Close']'' \<and> modal w then Inr 902
         else Inl NoSuchElementException),
      find_elements = (\<lambda>w b sel.
         if sel = ''li[data-test='jobListing']'' then Inr (shown w) else Inr []),
      element_find_element = (\<lambda>w root b sel.
         if root = 903 \<and> sel = ''div[data-test='jobTitle']'' then Inr 904
         else if root = 903 \<and> sel = ''div[data-test='jobDescriptionText']'' then Inr 905
         else Inl NoSuchElementException),
      element_text = (\<lambda>w e.
         if e = 904 then Inr (lit '' Data Scientist '')
         else if e = 905 then Inr (lit ''Builds models'')
         else Inl WebDriverException),
      is_enabled = (\<lambda>w e. Inr True),
      is_displayed = (\<lambda>w e. Inr True),
      get_attribute = (\<lambda>w e name.
         if e = 901 \<and> name = ''href'' then Inr (more_url w) else Inr None),
      click = (\<lambda>e w.
         if e = 900 then
           (None, w\<lparr>shown := shown w @ pending w, pending := [], clicked := clicked w @ [e]\<rparr>)
         else if e = 902 then (None, w\<lparr>modal := False, clicked := clicked w @ [e]\<rparr>)
         else (None, w\<lparr>clicked := clicked w @ [e]\<rparr>)),
      execute_script = (\<lambda>script args w. (None, w)),
      execute_cdp_cmd = (\<lambda>cmd arg w. (None, w)),
      get = (\<lambda>url w.
         if more_url w = Some url then
           (None, w\<lparr>shown := next_page w, pending := [], more_url := None\<rparr>)
         else (None, w)),
      wait_presence = (\<lambda>t css w.
         if css = listing_css then
           (case shown w of [] \<Rightarrow> (Inl TimeoutException, w) | c # cs \<Rightarrow> (Inr c, w))
         else (Inr 903, w)),
      sleep = (\<lambda>ms w. w),
      chrome = (\<lambda>service options w. (None, w)),
      getcwd = Inr (lit ''/home/user'')\<rparr>"

text \<open>A page that shows the cards \<open>cs\<close> and has \<open>extra\<close> more to load.\<close>

definition sim_page :: "elem list \<Rightarrow> elem list \<Rightarrow> sim" where
  "sim_page cs extra =
     \<lparr>shown = cs, pending = extra, more_url = None, next_page = [], modal = False,
      clicked = []\<rparr>"

text \<open>The record every card of the simulated browser yields.\<close>

definition sim_job :: job_data where
  "sim_job =
     [(''Job Title'', lit ''Data Scientist''), (''Company'', lit ''-1''),
      (''Location'', lit ''-1''), (''Salary Estimate'', lit ''-1''), (''Rating'', lit ''-1''),
      (''Description'', lit ''Builds models''), (''Headquarters'', lit ''-1''),
      (''Size'', lit ''-1''), (''Founded'', lit ''-1''), (''Ownership'', lit ''-1''),
      (''Industry'', lit ''-1''), (''Sector'', lit ''-1''), (''Revenue'', lit ''-1''),
      (''Competitors'', lit ''-1'')]"

section \<open>The loop ends\<close>

text \<open>
  \<^verbatim>\<open>close_any_modal\<close> swallows every exception, and a pass of the loop body never comes
  back to the loop's test: it leaves by a \<^verbatim>\<open>break\<close> or with an exception, because line
  234 raises whenever it is reached. So the loop makes at most one pass, and the partial
  function that models it is total.
\<close>

lemma close_loop_no_raise: "fst (close_loop D sels w) = None"
  by (induction sels arbitrary: w) (auto split: prod.splits option.splits)

lemma close_any_modal_no_raise: "fst (close_any_modal D w) = None"
  by (simp add: close_any_modal_def split: prod.splits option.splits)

lemma loop_body_not_continue: "loop_body D n st \<noteq> Continue st1"
  by (auto simp: loop_body_def list_to_csv_def Let_def split: prod.splits sum.splits option.splits if_splits)

lemma while_loop_exit:
  "\<not> (int (length (jobs st)) < n \<and> page_num st \<le> max_pages) \<Longrightarrow>
   while_loop D n st = Some (Finished ConditionFalse st)"
  by (subst while_loop.simps) auto

lemma while_loop_break:
  "int (length (jobs st)) < n \<Longrightarrow> page_num st \<le> max_pages \<Longrightarrow> loop_body D n st = Break r st1 \<Longrightarrow>
   while_loop D n st = Some (Finished r st1)"
  by (subst while_loop.simps) simp

lemma while_loop_raise:
  "int (length (jobs st)) < n \<Longrightarrow> page_num st \<le> max_pages \<Longrightarrow> loop_body D n st = Raise e st1 \<Longrightarrow>
   while_loop D n st = Some (Aborted e st1)"
  by (subst while_loop.simps) simp

lemma while_loop_total: "\<exists>f. while_loop D n st = Some f"
proof (cases "int (length (jobs st)) < n \<and> page_num st \<le> max_pages")
  case False
  then show ?thesis using while_loop_exit by blast
next
  case True
  show ?thesis
  proof (cases "loop_body D n st")
    case (Continue st1)
    then show ?thesis using loop_body_not_continue by blast
  next
    case (Break r st1)
    then show ?thesis using True while_loop_break by blast
  next
    case (Raise e st1)
    then show ?thesis using True while_loop_raise by blast
  qed
qed

section \<open>The simulated browser at work\<close>

lemma sim_job_data: "job_data_of sim_driver w 903 = sim_job"
  by (simp add: job_data_of_def safe_find_def locate_def sim_driver_def sentinel_def sim_job_def
      is_xpath_def strip_def isspace_def lit_def description_field_def)

lemma sim_close: "\<not> modal w \<Longrightarrow> close_any_modal sim_driver w = (None, w)"
  by (simp add: close_any_modal_def close_selectors_def close_attempt_def sim_driver_def)

lemma sim_ops:
  "click sim_driver e w = (if e = 900 then
           (None, w\<lparr>shown := shown w @ pending w, pending := [], clicked := clicked w @ [e]\<rparr>)
         else if e = 902 then (None, w\<lparr>modal := False, clicked := clicked w @ [e]\<rparr>)
         else (None, w\<lparr>clicked := clicked w @ [e]\<rparr>))"
  "execute_script sim_driver script args w = (None, w)"
  "execute_cdp_cmd sim_driver cmd arg w = (None, w)"
  "sleep sim_driver ms w = w"
  "chrome sim_driver service options w = (None, w)"
  "getcwd sim_driver = Inr (lit ''/home/user'')"
  "is_enabled sim_driver w e = Inr True"
  "is_displayed sim_driver w e = Inr True"
  "get_attribute sim_driver w e name = (if e = 901 \<and> name = ''href'' then Inr (more_url w) else Inr None)"
  "get sim_driver url w = (if more_url w = Some url then
           (None, w\<lparr>shown := next_page w, pending := [], more_url := None\<rparr>)
         else (None, w))"
  "wait_presence sim_driver t css w = (if css = listing_css then
           (case shown w of [] \<Rightarrow> (Inl TimeoutException, w) | c # cs \<Rightarrow> (Inr c, w))
         else (Inr 903, w))"
  "find_elements sim_driver w b sel = (if sel = ''li[data-test='jobListing']'' then Inr (shown w) else Inr [])"
  "find_element sim_driver w b sel = (if sel = ''button[data-test='load-more']'' \<and> pending w \<noteq> [] then Inr 900
         else if sel = ''//a[contains(., 'See more jobs')]'' \<and> more_url w \<noteq> None then Inr 901
         else if sel = ''button[aria-label='Close']'' \<and> modal w then Inr 902
         else Inl NoSuchElementException)"
  by (simp_all add: sim_driver_def)

lemma sim_process_card:
  "\<not> modal (driver st) \<Longrightarrow> c < 900 \<Longrightarrow> process_card sim_driver c st =
     (None, st\<lparr>driver := (driver st)\<lparr>clicked := clicked (driver st) @ [c]\<rparr>, jobs := jobs st @ [sim_job]\<rparr>)"
  by (simp add: process_card_def sim_close activate_card_def sim_job_data sim_ops listing_css_def)

lemma sim_open: "\<not> modal w \<Longrightarrow> more_url w = None \<Longrightarrow> open_session sim_driver opts kw w = (None, w)"
  by (simp add: open_session_def sim_ops sim_close)

lemma sim_page_sel:
  "shown (sim_page cs extra) = cs" "pending (sim_page cs extra) = extra"
  "more_url (sim_page cs extra) = None" "next_page (sim_page cs extra) = []"
  "modal (sim_page cs extra) = False" "clicked (sim_page cs extra) = []"
  by (simp_all add: sim_page_def)

section \<open>The field extractor\<close>

lemma safe_find_loop_all_miss:
  "\<forall>p\<in>set sels. misses D w root p \<Longrightarrow> safe_find_loop D w root sels dflt = dflt"
  by (induction sels) (auto simp: misses_def split: sum.splits)

lemma safe_find_loop_first:
  "\<forall>p\<in>set pre. misses D w root p \<Longrightarrow> locate D w root s = Inr t \<Longrightarrow> t \<noteq> [] \<Longrightarrow>
   safe_find_loop D w root (pre @ s # post) dflt = t"
  by (induction pre) (auto simp: misses_def split: sum.splits)

text \<open>
  C4: \<^verbatim>\<open>safe_find\<close> returns the stripped text of the first selector, in list order,
  that resolves to an element whose stripped text is not empty: when every selector
  before \<open>s\<close> is a non-match and \<open>s\<close> yields the non-empty text \<open>t\<close>, the result is
  \<open>t\<close>. When every selector is a non-match the result is the default, which is the
  sentinel \<^verbatim>\<open>"-1"\<close> (code points 45 and 49) in every call of the program. A selector
  that raises is a non-match like one with empty text (\<open>misses\<close>), and the text
  \<open>locate\<close> yields is the element's text stripped.
\<close>

theorem safe_find_first_match:
  "(as_list sels = pre @ s # post \<and> (\<forall>p\<in>set pre. misses D w root p)
      \<and> locate D w root s = Inr t \<and> t \<noteq> []
     \<longrightarrow> safe_find D w root sels dflt = t)
   \<and> ((\<forall>p\<in>set (as_list sels). misses D w root p) \<longrightarrow> safe_find D w root sels dflt = dflt)
   \<and> (locate D w root s = Inr t \<longleftrightarrow>
        (\<exists>el raw. element_find_element D w root
                     (if is_xpath s then XPATH else CSS_SELECTOR) s = Inr el
                   \<and> element_text D w el = Inr raw \<and> t = strip raw))
   \<and> sentinel = [45, 49]"
proof -
  have a: "as_list sels = pre @ s # post \<and> (\<forall>p\<in>set pre. misses D w root p)
      \<and> locate D w root s = Inr t \<and> t \<noteq> []
     \<longrightarrow> safe_find D w root sels dflt = t"
    by (simp add: safe_find_def safe_find_loop_first)
  have b: "(\<forall>p\<in>set (as_list sels). misses D w root p) \<longrightarrow> safe_find D w root sels dflt = dflt"
    by (simp add: safe_find_def safe_find_loop_all_miss)
  have c: "locate D w root s = Inr t \<longleftrightarrow>
        (\<exists>el raw. element_find_element D w root
                     (if is_xpath s then XPATH else CSS_SELECTOR) s = Inr el
                   \<and> element_text D w el = Inr raw \<and> t = strip raw)"
    by (auto simp: locate_def split: sum.splits)
  have d: "sentinel = [45, 49]"
    by (simp add: sentinel_def lit_def)
  from a b c d show ?thesis by blast
qed

lemma sim_locate:
  "locate sim_driver w 903 sel =
     (if sel = ''div[data-test='jobTitle']'' then Inr (lit ''Data Scientist'')
      else if sel = ''div[data-test='jobDescriptionText']'' then Inr (lit ''Builds models'')
      else Inl NoSuchElementException)"
  by (simp add: locate_def sim_driver_def strip_def isspace_def lit_def)

text \<open>
  On the detail pane of the simulated browser the third title selector is the first to
  match, and the location selector does not match.
\<close>

theorem safe_find_first_match_witness:
  "safe_find sim_driver (sim_page [1] []) 903
     (Lst [''h1.heading_Level1__w42c9'', ''h1[id*='jd-job-title-']'', ''div[data-test='jobTitle']''])
     sentinel = lit ''Data Scientist''
   \<and> safe_find sim_driver (sim_page [1] []) 903 (Lst [''div[data-test='location']'']) sentinel
       = lit ''-1''"
  using safe_find_first_match [of
      "Lst [''h1.heading_Level1__w42c9'', ''h1[id*='jd-job-title-']'', ''div[data-test='jobTitle']'']"
      "[''h1.heading_Level1__w42c9'', ''h1[id*='jd-job-title-']'']" "''div[data-test='jobTitle']''" "[]"
      sim_driver "sim_page [1] []" 903 "lit ''Data Scientist''" sentinel]
    safe_find_first_match [of "Lst [''div[data-test='location']'']" "[]" "''x''" "[]"
      sim_driver "sim_page [1] []" 903 "[]" sentinel]
  by (simp add: misses_def sim_locate lit_def)

section \<open>The modal dismisser\<close>





section \<open>The description\<close>

lemma length_lit: "length (lit s) = length s"
  by (simp add: lit_def)

text \<open>
  C5: a description of more than 500 code points is stored as its first 500 code points
  followed by the three code points of \<^verbatim>\<open>"..."\<close>, 503 in all; one of 500 or fewer is
  stored as it is. The stored value is the entry \<^verbatim>\<open>"Description"\<close> of the record that
  line 221 builds from the extracted text.
\<close>

theorem description_truncation:
  "(length d > 500 \<longrightarrow>
      description_field d = take 500 d @ lit ''...'' \<and> length (description_field d) = 503)
   \<and> (length d \<le> 500 \<longrightarrow> description_field d = d)
   \<and> length (lit ''...'') = 3
   \<and> map_of (job_data_of D w detail_pane) ''Description''
       = Some (description_field (safe_find D w detail_pane
            (Lst [''div.JobDetails_jobDescription__uW_fK'',
                  ''div[data-test='jobDescriptionText']'']) sentinel))"
  by (simp add: description_field_def length_lit job_data_of_def Let_def)

text \<open>A description of 501 code points is cut, one of exactly 500 is not.\<close>

theorem description_truncation_witness:
  "description_field (replicate 501 120) = replicate 500 120 @ lit ''...''
   \<and> length (description_field (replicate 501 120)) = 503
   \<and> description_field (replicate 500 120) = replicate 500 120"
  using description_truncation [of "replicate 501 120" sim_driver "sim_page [1] []" 903]
    description_truncation [of "replicate 500 120" sim_driver "sim_page [1] []" 903]
  by simp

section \<open>The headless flag\<close>

lemma no_headless_argument:
  "\<forall>a\<in>set (arguments (build_options cwd)). take 10 a \<noteq> lit ''--headless''"
  by (cases cwd) (simp_all add: build_options_def lit_def)

text \<open>
  C10: after the guard of lines 79 to 81 the variable \<^verbatim>\<open>headless\<close> is \<^verbatim>\<open>False\<close> whatever
  was passed, a call with \<^verbatim>\<open>headless=True\<close> behaves as the call with
  \<^verbatim>\<open>headless=False\<close>, and no argument of the browser's options starts with
  \<^verbatim>\<open>--headless\<close>.
\<close>

theorem headless_never_used:
  "headless_guard headless = False
   \<and> get_jobs D keyword num_jobs True verbose w fs = get_jobs D keyword num_jobs False verbose w fs
   \<and> (\<forall>a\<in>set (arguments (build_options cwd)). take 10 a \<noteq> lit ''--headless'')"
  using no_headless_argument [of cwd]
  by (simp add: headless_guard_def get_jobs_def)

text \<open>The options built in the working directory of the simulated browser.\<close>

theorem headless_never_used_witness:
  "headless_guard True = False
   \<and> lit ''--user-data-dir=/home/user/chrome_profile''
       \<in> set (arguments (build_options (getcwd sim_driver)))
   \<and> take 10 (lit ''--user-data-dir=/home/user/chrome_profile'') \<noteq> lit ''--headless''"
  using headless_never_used [of True sim_driver "[]" 1 True "sim_page [1] []" Map.empty "getcwd sim_driver"]
  by (simp add: build_options_def sim_ops path_join_def lit_def)

section \<open>No listing on the page\<close>

lemma loop_body_timeout:
  "wait_presence D 10 listing_css (driver st) = (Inl TimeoutException, w1) \<Longrightarrow>
   loop_body D n st = Break NoListings (st\<lparr>driver := w1\<rparr>)"
  by (simp add: loop_body_def)

text \<open>
  C8: when the wait of line 147 times out in a pass of the loop, the loop ends there
  with the reason no-listings and with the records collected so far. When that happens
  at the first pass of a run (the session opened and the target is positive),
  \<^verbatim>\<open>get_jobs\<close> returns the DataFrame of no record, which has no row.
\<close>

theorem no_listings_ends_run:
  "(int (length (jobs st)) < num_jobs \<and> page_num st \<le> max_pages
      \<and> wait_presence D 10 listing_css (driver st) = (Inl TimeoutException, w1)
     \<longrightarrow> while_loop D num_jobs st = Some (Finished NoListings (st\<lparr>driver := w1\<rparr>))
         \<and> jobs (st\<lparr>driver := w1\<rparr>) = jobs st)
   \<and> (0 < num_jobs \<and> open_session D (build_options (getcwd D)) keyword w = (None, w0)
      \<and> wait_presence D 10 listing_css w0 = (Inl TimeoutException, w1)
     \<longrightarrow> while_loop D num_jobs (initial_state w0 fs)
           = Some (Finished NoListings ((initial_state w0 fs)\<lparr>driver := w1\<rparr>))
         \<and> get_jobs D keyword num_jobs headless verbose w fs = Some (Inr (DataFrame []), w1, fs)
         \<and> rows (DataFrame []) = [])"
proof -
  have a: "int (length (jobs st)) < num_jobs \<and> page_num st \<le> max_pages
      \<and> wait_presence D 10 listing_css (driver st) = (Inl TimeoutException, w1)
     \<longrightarrow> while_loop D num_jobs st = Some (Finished NoListings (st\<lparr>driver := w1\<rparr>))
         \<and> jobs (st\<lparr>driver := w1\<rparr>) = jobs st"
    using while_loop_break [of st num_jobs D NoListings "st\<lparr>driver := w1\<rparr>"]
      loop_body_timeout [of D st w1 num_jobs]
    by simp
  have b: "0 < num_jobs \<and> open_session D (build_options (getcwd D)) keyword w = (None, w0)
      \<and> wait_presence D 10 listing_css w0 = (Inl TimeoutException, w1)
     \<longrightarrow> while_loop D num_jobs (initial_state w0 fs)
           = Some (Finished NoListings ((initial_state w0 fs)\<lparr>driver := w1\<rparr>))
         \<and> get_jobs D keyword num_jobs headless verbose w fs = Some (Inr (DataFrame []), w1, fs)
         \<and> rows (DataFrame []) = []"
  proof (intro impI, elim conjE)
    assume n: "0 < num_jobs"
      and o: "open_session D (build_options (getcwd D)) keyword w = (None, w0)"
      and t: "wait_presence D 10 listing_css w0 = (Inl TimeoutException, w1)"
    let ?st = "initial_state w0 fs"
    have h1: "int (length (jobs ?st)) < num_jobs" and h2: "page_num ?st \<le> max_pages"
      and h3: "wait_presence D 10 listing_css (driver ?st) = (Inl TimeoutException, w1)"
      using n t by (simp_all add: initial_state_def max_pages_def)
    have l: "while_loop D num_jobs ?st = Some (Finished NoListings (?st\<lparr>driver := w1\<rparr>))"
      by (rule while_loop_break [OF h1 h2 loop_body_timeout [OF h3]])
    then show "while_loop D num_jobs ?st = Some (Finished NoListings (?st\<lparr>driver := w1\<rparr>))
         \<and> get_jobs D keyword num_jobs headless verbose w fs = Some (Inr (DataFrame []), w1, fs)
         \<and> rows (DataFrame []) = []"
      using o by (simp add: get_jobs_def initial_state_def DataFrame_def)
  qed
  from a b show ?thesis by blast
qed

text \<open>A simulated page without any card, and a target of five.\<close>

theorem no_listings_ends_run_witness:
  "while_loop sim_driver 5 (initial_state (sim_page [] []) Map.empty)
     = Some (Finished NoListings (initial_state (sim_page [] []) Map.empty))
   \<and> get_jobs sim_driver (lit ''data scientist'') 5 False True (sim_page [] []) Map.empty
       = Some (Inr (DataFrame []), sim_page [] [], Map.empty)
   \<and> rows (DataFrame []) = []"
  using no_listings_ends_run [of "initial_state (sim_page [] []) Map.empty" 5 sim_driver
      "sim_page [] []" "lit ''data scientist''" "sim_page [] []" "sim_page [] []" Map.empty False True]
  by (simp add: sim_open sim_page_sel sim_ops initial_state_def max_pages_def)

section \<open>What a pass of the loop changes\<close>

lemma process_card_frame:
  "page_num (snd (process_card D c st)) = page_num st"
  "scraped_card_count (snd (process_card D c st)) = scraped_card_count st"
  "files (snd (process_card D c st)) = files st"
  by (auto simp: process_card_def split: prod.splits option.splits sum.splits)

lemma process_card_jobs:
  "length (jobs (snd (process_card D c st))) \<le> Suc (length (jobs st))"
  by (auto simp: process_card_def split: prod.splits option.splits sum.splits)

lemma for_cards_frame:
  "page_num (snd (for_cards D n cs st)) = page_num st
   \<and> scraped_card_count (snd (for_cards D n cs st)) = scraped_card_count st
   \<and> files (snd (for_cards D n cs st)) = files st"
proof (induction cs arbitrary: st)
  case Nil
  then show ?case by simp
next
  case (Cons c cs)
  show ?case
  proof (cases "process_card D c st")
    case (Pair r st1)
    then have "page_num st1 = page_num st" "scraped_card_count st1 = scraped_card_count st"
      "files st1 = files st"
      using process_card_frame [of D c st] by simp_all
    then show ?thesis using Pair Cons.IH [of st1]
      by (cases r) simp_all
  qed
qed

lemma for_cards_stop: "n \<le> int (length (jobs st)) \<Longrightarrow> for_cards D n cs st = (None, st)"
  by (cases cs) simp_all

lemma for_cards_bound:
  "int (length (jobs st)) \<le> n \<Longrightarrow> int (length (jobs (snd (for_cards D n cs st)))) \<le> n"
proof (induction cs arbitrary: st)
  case Nil
  then show ?case by simp
next
  case (Cons c cs)
  show ?case
  proof (cases "n \<le> int (length (jobs st))")
    case True
    then show ?thesis using Cons.prems by simp
  next
    case False
    obtain r st1 where p: "process_card D c st = (r, st1)" by (cases "process_card D c st")
    have "length (jobs st1) \<le> Suc (length (jobs st))"
      using process_card_jobs [of D c st] p by simp
    then have b: "int (length (jobs st1)) \<le> n" using False by simp
    show ?thesis using False p b Cons.IH [OF b]
      by (cases r) simp_all
  qed
qed

lemma show_more_frame:
  "page_num (snd (show_more D cs st)) = page_num st"
  "jobs (snd (show_more D cs st)) = jobs st"
  "files (snd (show_more D cs st)) = files st"
  by (auto simp: show_more_def Let_def split: prod.splits option.splits sum.splits)

lemma show_more_count:
  "fst (show_more D cs st) \<Longrightarrow> scraped_card_count (snd (show_more D cs st)) = length cs"
  "\<not> fst (show_more D cs st) \<Longrightarrow> scraped_card_count (snd (show_more D cs st)) = scraped_card_count st"
  by (auto simp: show_more_def Let_def split: prod.splits option.splits sum.splits if_splits)

lemma see_more_frame:
  "jobs (step_state (see_more D st)) = jobs st"
  "files (step_state (see_more D st)) = files st"
  by (auto simp: see_more_def split: prod.splits option.splits sum.splits)

lemma see_more_continue:
  "see_more D st = Continue st1 \<Longrightarrow> scraped_card_count st1 = 0 \<and> page_num st1 = 1"
  by (auto simp: see_more_def split: prod.splits option.splits sum.splits if_splits)

lemma see_more_break:
  "see_more D st = Break r st1 \<Longrightarrow>
     page_num st1 = page_num st \<and> scraped_card_count st1 = scraped_card_count st"
  by (auto simp: see_more_def split: prod.splits option.splits sum.splits if_splits)

lemma see_more_no_raise: "see_more D st \<noteq> Raise e st1"
  by (auto simp: see_more_def split: prod.splits option.splits sum.splits if_splits)

lemma continuation_cases:
  "continuation D n cs st =
     (if int (length (jobs st)) < n then
        (if fst (show_more D cs st) then Continue (snd (show_more D cs st))
         else see_more D (snd (show_more D cs st)))
      else Continue st)"
  by (simp add: continuation_def split: prod.splits)

lemma continuation_page_num:
  "page_num (step_state (continuation D n cs st)) = page_num st
   \<or> (\<exists>st1. continuation D n cs st = Continue st1 \<and> page_num st1 = 1
            \<and> scraped_card_count st1 = 0)"
proof (cases "see_more D (snd (show_more D cs st))")
  case (Continue st1)
  then show ?thesis
    using see_more_continue [OF Continue] show_more_frame(1) [of D cs st]
    by (simp add: continuation_cases)
next
  case (Break r st1)
  then show ?thesis
    using see_more_break [OF Break] show_more_frame(1) [of D cs st]
    by (simp add: continuation_cases)
next
  case (Raise e st1)
  then show ?thesis using see_more_no_raise by blast
qed

lemma for_cards_frameD:
  "for_cards D n cs st = (r, st1) \<Longrightarrow>
     page_num st1 = page_num st \<and> scraped_card_count st1 = scraped_card_count st
     \<and> files st1 = files st"
  using for_cards_frame [of D n cs st] by simp

lemma for_cards_boundD:
  "for_cards D n cs st = (r, st1) \<Longrightarrow> int (length (jobs st)) \<le> n \<Longrightarrow>
     int (length (jobs st1)) \<le> n"
  using for_cards_bound [of st n D cs] by simp

lemma loop_body_frame:
  "page_num (step_state (loop_body D n st)) = page_num st
   \<and> scraped_card_count (step_state (loop_body D n st)) = scraped_card_count st
   \<and> files (step_state (loop_body D n st)) = files st"
  by (auto simp: loop_body_def list_to_csv_def Let_def
      split: prod.splits sum.splits option.splits dest!: for_cards_frameD)

lemma loop_body_bound:
  "int (length (jobs st)) \<le> n \<Longrightarrow> int (length (jobs (step_state (loop_body D n st)))) \<le> n"
  by (auto simp: loop_body_def list_to_csv_def Let_def
      split: prod.splits sum.splits option.splits dest!: for_cards_boundD)

lemma while_loop_result:
  "while_loop D n st = Some f \<Longrightarrow>
     f = Finished ConditionFalse st
     \<or> (int (length (jobs st)) < n \<and> page_num st \<le> max_pages
        \<and> state_of f = step_state (loop_body D n st))"
proof (cases "int (length (jobs st)) < n \<and> page_num st \<le> max_pages")
  case False
  assume "while_loop D n st = Some f"
  then show ?thesis using while_loop_exit [OF False, of D] by simp
next
  case True
  assume w: "while_loop D n st = Some f"
  show ?thesis
  proof (cases "loop_body D n st")
    case (Continue st1)
    then show ?thesis using loop_body_not_continue by blast
  next
    case (Break r st1)
    then show ?thesis using True w while_loop_break [of st n D r st1] by auto
  next
    case (Raise e st1)
    then show ?thesis using True w while_loop_raise [of st n D e st1] by auto
  qed
qed

lemma sim_show_more:
  "pending (driver st) \<noteq> [] \<Longrightarrow> show_more sim_driver cs st =
     (True, st\<lparr>driver := (driver st)\<lparr>shown := shown (driver st) @ pending (driver st),
                                       pending := [], clicked := clicked (driver st) @ [900]\<rparr>,
               scraped_card_count := length cs\<rparr>)"
  by (simp add: show_more_def sim_ops)

lemma sim_show_more_absent:
  "pending (driver st) = [] \<Longrightarrow> show_more sim_driver cs st = (False, st)"
  by (simp add: show_more_def sim_ops)

lemma sim_see_more:
  "more_url (driver st) = Some url \<Longrightarrow> url \<noteq> [] \<Longrightarrow> \<not> modal (driver st) \<Longrightarrow>
   see_more sim_driver st =
     Continue (st\<lparr>driver := (driver st)\<lparr>shown := next_page (driver st), pending := [],
                                          more_url := None\<rparr>,
                 scraped_card_count := 0, page_num := 1\<rparr>)"
  by (simp add: see_more_def sim_ops sim_close)

lemma sim_see_more_absent:
  "more_url (driver st) = None \<Longrightarrow> see_more sim_driver st = Break NoContinuation st"
  by (simp add: see_more_def sim_ops)

section \<open>The page counter\<close>

text \<open>
  C2: \<^verbatim>\<open>page_num\<close> is 1 at the first test of the loop. The continuation leaves it as
  it is, except where the navigation by the `See more jobs' link sets it to 1 (and the
  count of scraped cards to 0); so it stays within \<^verbatim>\<open>max_pages\<close>. A whole pass of the
  loop body leaves it unchanged. The test at the top of the loop ends the loop, before
  anything is done with the browser, once the counter exceeds \<^verbatim>\<open>max_pages\<close>. At the
  end of every run that starts at line 142 the counter is 1. No statement of the source
  increments it.
\<close>

theorem page_counter:
  "page_num (initial_state w fs) = 1
   \<and> (page_num (step_state (continuation D num_jobs all_job_cards st)) = page_num st
       \<or> (\<exists>st1. continuation D num_jobs all_job_cards st = Continue st1 \<and> page_num st1 = 1
                 \<and> scraped_card_count st1 = 0))
   \<and> (page_num st \<le> max_pages
       \<longrightarrow> page_num (step_state (continuation D num_jobs all_job_cards st)) \<le> max_pages)
   \<and> page_num (step_state (loop_body D num_jobs st)) = page_num st
   \<and> (max_pages < page_num st \<longrightarrow> while_loop D num_jobs st = Some (Finished ConditionFalse st))
   \<and> (while_loop D num_jobs (initial_state w fs) = Some f
       \<longrightarrow> page_num (state_of f) = 1 \<and> page_num (state_of f) \<le> max_pages)"
proof -
  have a: "page_num (initial_state w fs) = 1"
    by (simp add: initial_state_def)
  have b: "page_num (step_state (continuation D num_jobs all_job_cards st)) = page_num st
       \<or> (\<exists>st1. continuation D num_jobs all_job_cards st = Continue st1 \<and> page_num st1 = 1
                 \<and> scraped_card_count st1 = 0)"
    by (rule continuation_page_num)
  have c: "page_num st \<le> max_pages
       \<longrightarrow> page_num (step_state (continuation D num_jobs all_job_cards st)) \<le> max_pages"
    using b by (auto simp: max_pages_def)
  have d: "page_num (step_state (loop_body D num_jobs st)) = page_num st"
    using loop_body_frame [of D num_jobs st] by simp
  have e: "max_pages < page_num st \<longrightarrow> while_loop D num_jobs st = Some (Finished ConditionFalse st)"
    using while_loop_exit [of st num_jobs D] by simp
  have f: "while_loop D num_jobs (initial_state w fs) = Some f
       \<longrightarrow> page_num (state_of f) = 1 \<and> page_num (state_of f) \<le> max_pages"
  proof
    assume "while_loop D num_jobs (initial_state w fs) = Some f"
    from while_loop_result [OF this] have "page_num (state_of f) = 1"
      using loop_body_frame [of D num_jobs "initial_state w fs"] a by auto
    then show "page_num (state_of f) = 1 \<and> page_num (state_of f) \<le> max_pages"
      by (simp add: max_pages_def)
  qed
  from a b c d e f show ?thesis by blast
qed

text \<open>
  The continuation after five cards with two more to load clicks `Show more' and keeps
  the counter; a loop entered with the counter at 11 ends at once.
\<close>

theorem page_counter_witness:
  "continuation sim_driver 10 [1, 2, 3, 4, 5]
       ((initial_state (sim_page [1, 2, 3, 4, 5] [6, 7]) Map.empty)\<lparr>jobs := replicate 5 sim_job\<rparr>)
     = Continue ((initial_state
          ((sim_page [1, 2, 3, 4, 5, 6, 7] [])\<lparr>clicked := [900]\<rparr>) Map.empty)
          \<lparr>jobs := replicate 5 sim_job, scraped_card_count := 5\<rparr>)
   \<and> while_loop sim_driver 10 ((initial_state (sim_page [1] []) Map.empty)\<lparr>page_num := 11\<rparr>)
       = Some (Finished ConditionFalse
                ((initial_state (sim_page [1] []) Map.empty)\<lparr>page_num := 11\<rparr>))
   \<and> while_loop sim_driver 5 (initial_state (sim_page [] []) Map.empty)
       = Some (Finished NoListings (initial_state (sim_page [] []) Map.empty))
   \<and> page_num (initial_state (sim_page [] []) Map.empty) \<le> max_pages"
  using page_counter [of "sim_page [] []" Map.empty sim_driver 10 "[1, 2, 3, 4, 5]"
      "(initial_state (sim_page [1, 2, 3, 4, 5] [6, 7]) Map.empty)\<lparr>jobs := replicate 5 sim_job\<rparr>"
      "Finished NoListings (initial_state (sim_page [] []) Map.empty)"]
    page_counter [of "sim_page [] []" Map.empty sim_driver 10 "[]"
      "(initial_state (sim_page [1] []) Map.empty)\<lparr>page_num := 11\<rparr>"
      "Finished NoListings (initial_state (sim_page [] []) Map.empty)"]
    page_counter [of "sim_page [] []" Map.empty sim_driver 5 "[]"
      "initial_state (sim_page [] []) Map.empty"
      "Finished NoListings (initial_state (sim_page [] []) Map.empty)"]
    while_loop_break [of "initial_state (sim_page [] []) Map.empty" 5 sim_driver NoListings
      "initial_state (sim_page [] []) Map.empty"]
  by (simp add: continuation_def sim_show_more initial_state_def sim_page_def max_pages_def
      loop_body_def sim_ops)

section \<open>The target count\<close>

text \<open>
  C3 as stated fails for a negative target: with \<^verbatim>\<open>num_jobs = -1\<close> the run returns no
  record, and 0 is not at most -1.
\<close>

theorem target_bound_counterexample:
  "get_jobs sim_driver (lit ''data scientist'') (- 1) False True (sim_page [1] []) Map.empty
     = Some (Inr (DataFrame []), sim_page [1] [], Map.empty)
   \<and> \<not> int (length (rows (DataFrame []))) \<le> - 1
   \<and> \<not> int (length (jobs (initial_state (sim_page [1] []) Map.empty))) \<le> - 1"
proof -
  let ?st = "initial_state (sim_page [1] []) Map.empty"
  have "\<not> (int (length (jobs ?st)) < - 1 \<and> page_num ?st \<le> max_pages)"
    by (simp add: initial_state_def)
  from while_loop_exit [OF this, of sim_driver]
  show ?thesis
    by (simp add: get_jobs_def sim_open sim_page_sel initial_state_def DataFrame_def)
qed

text \<open>
  C3, amended: for a target of at least 0, the number of collected records never
  exceeds the target: the \<^verbatim>\<open>for\<close> loop keeps it so over any list of cards (hence after
  every card of it), a pass of the loop body does, it holds at the end of the loop however
  it ended, and for the rows of the DataFrame returned. Once the target is reached the
  \<^verbatim>\<open>for\<close> loop does nothing for the remaining cards: it ends with the state, the
  browser included, as it was, so no further card is clicked and no modal closed.
\<close>

theorem target_bound:
  assumes "0 \<le> num_jobs"
  shows "(int (length (jobs st)) \<le> num_jobs
            \<longrightarrow> int (length (jobs (snd (for_cards D num_jobs cards st)))) \<le> num_jobs)
       \<and> (num_jobs \<le> int (length (jobs st)) \<longrightarrow> for_cards D num_jobs cards st = (None, st))
       \<and> (int (length (jobs st)) \<le> num_jobs
            \<longrightarrow> int (length (jobs (step_state (loop_body D num_jobs st)))) \<le> num_jobs)
       \<and> (while_loop D num_jobs (initial_state w fs) = Some f
            \<longrightarrow> int (length (jobs (state_of f))) \<le> num_jobs)
       \<and> (get_jobs D keyword num_jobs headless verbose w fs = Some (Inr df, w1, fs1)
            \<longrightarrow> int (length (rows df)) \<le> num_jobs)"
proof -
  have a: "int (length (jobs st)) \<le> num_jobs
            \<longrightarrow> int (length (jobs (snd (for_cards D num_jobs cards st)))) \<le> num_jobs"
    using for_cards_bound by blast
  have b: "num_jobs \<le> int (length (jobs st)) \<longrightarrow> for_cards D num_jobs cards st = (None, st)"
    using for_cards_stop by blast
  have c: "int (length (jobs st)) \<le> num_jobs
            \<longrightarrow> int (length (jobs (step_state (loop_body D num_jobs st)))) \<le> num_jobs"
    using loop_body_bound by blast
  have i: "int (length (jobs (initial_state w0 fs))) \<le> num_jobs" for w0
    using assms by (simp add: initial_state_def)
  have d: "while_loop D num_jobs (initial_state w0 fs) = Some f
            \<longrightarrow> int (length (jobs (state_of f))) \<le> num_jobs" for w0 f
  proof
    assume "while_loop D num_jobs (initial_state w0 fs) = Some f"
    from while_loop_result [OF this]
    show "int (length (jobs (state_of f))) \<le> num_jobs"
      using i [of w0] loop_body_bound [OF i, of D w0] by auto
  qed
  have e: "get_jobs D keyword num_jobs headless verbose w fs = Some (Inr df, w1, fs1)
            \<longrightarrow> int (length (rows df)) \<le> num_jobs"
  proof
    assume g: "get_jobs D keyword num_jobs headless verbose w fs = Some (Inr df, w1, fs1)"
    obtain r w0 where o: "open_session D (build_options (getcwd D)) keyword w = (r, w0)"
      by (cases "open_session D (build_options (getcwd D)) keyword w")
    from g o obtain x st1 where "while_loop D num_jobs (initial_state w0 fs) = Some (Finished x st1)"
      and "df = DataFrame (jobs st1)"
      by (auto simp: get_jobs_def split: option.splits finish.splits)
    then show "int (length (rows df)) \<le> num_jobs"
      using d [of w0 "Finished x st1"] by (simp add: DataFrame_def)
  qed
  from a b c d [of w f] e show ?thesis by blast
qed

text \<open>
  Three cards and a target of two: the first two are clicked and recorded, the third is
  not touched.
\<close>

theorem target_bound_witness:
  "for_cards sim_driver 2 [1, 2, 3] (initial_state (sim_page [1, 2, 3] []) Map.empty)
     = (None, (initial_state ((sim_page [1, 2, 3] [])\<lparr>clicked := [1, 2]\<rparr>) Map.empty)
                \<lparr>jobs := [sim_job, sim_job]\<rparr>)
   \<and> for_cards sim_driver 2 [3]
        ((initial_state ((sim_page [1, 2, 3] [])\<lparr>clicked := [1, 2]\<rparr>) Map.empty)
                \<lparr>jobs := [sim_job, sim_job]\<rparr>)
     = (None, (initial_state ((sim_page [1, 2, 3] [])\<lparr>clicked := [1, 2]\<rparr>) Map.empty)
                \<lparr>jobs := [sim_job, sim_job]\<rparr>)"
proof -
  have h: "(0::int) \<le> 2" by simp
  show ?thesis
    using target_bound [OF h, of "initial_state (sim_page [1, 2, 3] []) Map.empty" sim_driver
        "[1, 2, 3]" "sim_page [] []" Map.empty
        "Finished NoListings (initial_state (sim_page [] []) Map.empty)"
        "[]" False True "DataFrame []" "sim_page [] []" Map.empty]
      target_bound [OF h, of "(initial_state ((sim_page [1, 2, 3] [])\<lparr>clicked := [1, 2]\<rparr>) Map.empty)
                \<lparr>jobs := [sim_job, sim_job]\<rparr>" sim_driver
        "[3]" "sim_page [] []" Map.empty
        "Finished NoListings (initial_state (sim_page [] []) Map.empty)"
        "[]" False True "DataFrame []" "sim_page [] []" Map.empty]
    by (simp add: sim_process_card initial_state_def sim_page_def)
qed

section \<open>The continuation block\<close>

lemma see_more_success:
  "find_element D (driver st) XPATH ''//a[contains(., 'See more jobs')]'' = Inr link \<Longrightarrow>
   get_attribute D (driver st) link ''href'' = Inr (Some url) \<Longrightarrow> url \<noteq> [] \<Longrightarrow>
   get D url (driver st) = (None, w1) \<Longrightarrow>
   see_more D st = Continue (st\<lparr>driver := snd (close_any_modal D (sleep D 5000 w1)),
                                scraped_card_count := 0, page_num := 1\<rparr>)"
proof -
  assume a: "find_element D (driver st) XPATH ''//a[contains(., 'See more jobs')]'' = Inr link"
    and b: "get_attribute D (driver st) link ''href'' = Inr (Some url)"
    and c: "url \<noteq> []" and d: "get D url (driver st) = (None, w1)"
  obtain r w2 where m: "close_any_modal D (sleep D 5000 w1) = (r, w2)"
    by (cases "close_any_modal D (sleep D 5000 w1)")
  then have "r = None"
    using close_any_modal_no_raise [of D "sleep D 5000 w1"] by simp
  then show ?thesis
    using a b c d m by (simp add: see_more_def)
qed

lemma show_more_success:
  "execute_script D ''window.scrollTo(0, document.body.scrollHeight);'' [] (driver st) = (None, w1) \<Longrightarrow>
   find_element D (sleep D 2000 w1) CSS_SELECTOR ''button[data-test='load-more']'' = Inr btn \<Longrightarrow>
   is_enabled D (sleep D 2000 w1) btn = Inr True \<Longrightarrow>
   is_displayed D (sleep D 2000 w1) btn = Inr True \<Longrightarrow>
   click D btn (sleep D 2000 w1) = (None, w3) \<Longrightarrow>
   show_more D all_job_cards st
     = (True, st\<lparr>driver := sleep D 4000 w3, scraped_card_count := length all_job_cards\<rparr>)"
  by (simp add: show_more_def)

lemma show_more_clicked:
  "fst (show_more D all_job_cards st) \<Longrightarrow>
   \<exists>w1 btn w3.
      execute_script D ''window.scrollTo(0, document.body.scrollHeight);'' [] (driver st) = (None, w1)
      \<and> find_element D (sleep D 2000 w1) CSS_SELECTOR ''button[data-test='load-more']'' = Inr btn
      \<and> is_enabled D (sleep D 2000 w1) btn = Inr True
      \<and> is_displayed D (sleep D 2000 w1) btn = Inr True
      \<and> click D btn (sleep D 2000 w1) = (None, w3)"
  by (simp add: show_more_def Let_def split: prod.splits option.splits sum.splits if_splits)

text \<open>
  The continuation block of lines 237 to 302, taken by itself. When the `Show more'
  button is found, enabled and displayed and the click on it succeeds, the block ends
  with \<^verbatim>\<open>continue\<close> and the count of scraped cards is the number of cards seen before
  the click. When the `See more jobs' link is found, has a non-empty \<^verbatim>\<open>href\<close> and the
  navigation to it succeeds, CASE 2 ends with \<^verbatim>\<open>continue\<close>, the count of scraped cards
  0 and the page counter 1. The block takes a \<^verbatim>\<open>break\<close> only when the `Show more'
  attempt did not get through (the scroll, the lookup, one of the two tests or the
  click failed) and the `See more jobs' attempt after it ended in that \<^verbatim>\<open>break\<close>.
\<close>

lemma continuation_block:
  "(int (length (jobs st)) < num_jobs
      \<and> execute_script D ''window.scrollTo(0, document.body.scrollHeight);'' [] (driver st)
          = (None, w1)
      \<and> find_element D (sleep D 2000 w1) CSS_SELECTOR ''button[data-test='load-more']'' = Inr btn
      \<and> is_enabled D (sleep D 2000 w1) btn = Inr True
      \<and> is_displayed D (sleep D 2000 w1) btn = Inr True
      \<and> click D btn (sleep D 2000 w1) = (None, w3)
     \<longrightarrow> continuation D num_jobs all_job_cards st
         = Continue (st\<lparr>driver := sleep D 4000 w3,
                         scraped_card_count := length all_job_cards\<rparr>))
   \<and> (find_element D (driver st) XPATH ''//a[contains(., 'See more jobs')]'' = Inr link
      \<and> get_attribute D (driver st) link ''href'' = Inr (Some url) \<and> url \<noteq> []
      \<and> get D url (driver st) = (None, w2)
     \<longrightarrow> see_more D st = Continue (st\<lparr>driver := snd (close_any_modal D (sleep D 5000 w2)),
                                      scraped_card_count := 0, page_num := 1\<rparr>))
   \<and> (see_more D st = Continue st1 \<longrightarrow> scraped_card_count st1 = 0 \<and> page_num st1 = 1)
   \<and> (continuation D num_jobs all_job_cards st = Break r st2
       \<longrightarrow> \<not> (\<exists>w1 btn w3.
               execute_script D ''window.scrollTo(0, document.body.scrollHeight);'' []
                 (driver st) = (None, w1)
               \<and> find_element D (sleep D 2000 w1) CSS_SELECTOR
                   ''button[data-test='load-more']'' = Inr btn
               \<and> is_enabled D (sleep D 2000 w1) btn = Inr True
               \<and> is_displayed D (sleep D 2000 w1) btn = Inr True
               \<and> click D btn (sleep D 2000 w1) = (None, w3))
           \<and> see_more D (snd (show_more D all_job_cards st)) = Break r st2)"
proof -
  have a: "int (length (jobs st)) < num_jobs
      \<and> execute_script D ''window.scrollTo(0, document.body.scrollHeight);'' [] (driver st)
          = (None, w1)
      \<and> find_element D (sleep D 2000 w1) CSS_SELECTOR ''button[data-test='load-more']'' = Inr btn
      \<and> is_enabled D (sleep D 2000 w1) btn = Inr True
      \<and> is_displayed D (sleep D 2000 w1) btn = Inr True
      \<and> click D btn (sleep D 2000 w1) = (None, w3)
     \<longrightarrow> continuation D num_jobs all_job_cards st
         = Continue (st\<lparr>driver := sleep D 4000 w3,
                         scraped_card_count := length all_job_cards\<rparr>)"
  proof (intro impI, elim conjE)
    assume n: "int (length (jobs st)) < num_jobs"
      and h1: "execute_script D ''window.scrollTo(0, document.body.scrollHeight);'' [] (driver st)
          = (None, w1)"
      and h2: "find_element D (sleep D 2000 w1) CSS_SELECTOR ''button[data-test='load-more']'' = Inr btn"
      and h3: "is_enabled D (sleep D 2000 w1) btn = Inr True"
      and h4: "is_displayed D (sleep D 2000 w1) btn = Inr True"
      and h5: "click D btn (sleep D 2000 w1) = (None, w3)"
    from show_more_success [OF h1 h2 h3 h4 h5, of all_job_cards] n
    show "continuation D num_jobs all_job_cards st
         = Continue (st\<lparr>driver := sleep D 4000 w3,
                         scraped_card_count := length all_job_cards\<rparr>)"
      by (simp add: continuation_def)
  qed
  have b: "find_element D (driver st) XPATH ''//a[contains(., 'See more jobs')]'' = Inr link
      \<and> get_attribute D (driver st) link ''href'' = Inr (Some url) \<and> url \<noteq> []
      \<and> get D url (driver st) = (None, w2)
     \<longrightarrow> see_more D st = Continue (st\<lparr>driver := snd (close_any_modal D (sleep D 5000 w2)),
                                      scraped_card_count := 0, page_num := 1\<rparr>)"
    by (intro impI, elim conjE, rule see_more_success)
  have c: "see_more D st = Continue st1 \<longrightarrow> scraped_card_count st1 = 0 \<and> page_num st1 = 1"
    by (rule impI, rule see_more_continue)
  have d: "continuation D num_jobs all_job_cards st = Break r st2
       \<longrightarrow> \<not> (\<exists>w1 btn w3.
               execute_script D ''window.scrollTo(0, document.body.scrollHeight);'' []
                 (driver st) = (None, w1)
               \<and> find_element D (sleep D 2000 w1) CSS_SELECTOR
                   ''button[data-test='load-more']'' = Inr btn
               \<and> is_enabled D (sleep D 2000 w1) btn = Inr True
               \<and> is_displayed D (sleep D 2000 w1) btn = Inr True
               \<and> click D btn (sleep D 2000 w1) = (None, w3))
           \<and> see_more D (snd (show_more D all_job_cards st)) = Break r st2"
  proof
    assume e: "continuation D num_jobs all_job_cards st = Break r st2"
    have n: "int (length (jobs st)) < num_jobs"
      using e by (simp add: continuation_cases split: if_splits)
    have f: "\<not> fst (show_more D all_job_cards st)"
    proof
      assume "fst (show_more D all_job_cards st)"
      then show False using e n by (simp add: continuation_cases)
    qed
    have g: "see_more D (snd (show_more D all_job_cards st)) = Break r st2"
      using e n f by (simp add: continuation_cases)
    have h: "\<not> (\<exists>w1 btn w3.
               execute_script D ''window.scrollTo(0, document.body.scrollHeight);'' []
                 (driver st) = (None, w1)
               \<and> find_element D (sleep D 2000 w1) CSS_SELECTOR
                   ''button[data-test='load-more']'' = Inr btn
               \<and> is_enabled D (sleep D 2000 w1) btn = Inr True
               \<and> is_displayed D (sleep D 2000 w1) btn = Inr True
               \<and> click D btn (sleep D 2000 w1) = (None, w3))"
    proof
      assume "\<exists>w1 btn w3.
               execute_script D ''window.scrollTo(0, document.body.scrollHeight);'' []
                 (driver st) = (None, w1)
               \<and> find_element D (sleep D 2000 w1) CSS_SELECTOR
                   ''button[data-test='load-more']'' = Inr btn
               \<and> is_enabled D (sleep D 2000 w1) btn = Inr True
               \<and> is_displayed D (sleep D 2000 w1) btn = Inr True
               \<and> click D btn (sleep D 2000 w1) = (None, w3)"
      then obtain w1 btn w3 where
        "execute_script D ''window.scrollTo(0, document.body.scrollHeight);'' [] (driver st)
           = (None, w1)"
        "find_element D (sleep D 2000 w1) CSS_SELECTOR ''button[data-test='load-more']'' = Inr btn"
        "is_enabled D (sleep D 2000 w1) btn = Inr True"
        "is_displayed D (sleep D 2000 w1) btn = Inr True"
        "click D btn (sleep D 2000 w1) = (None, w3)"
        by (elim exE conjE)
      from show_more_success [OF this, of all_job_cards] f show False by simp
    qed
    show "\<not> (\<exists>w1 btn w3.
               execute_script D ''window.scrollTo(0, document.body.scrollHeight);'' []
                 (driver st) = (None, w1)
               \<and> find_element D (sleep D 2000 w1) CSS_SELECTOR
                   ''button[data-test='load-more']'' = Inr btn
               \<and> is_enabled D (sleep D 2000 w1) btn = Inr True
               \<and> is_displayed D (sleep D 2000 w1) btn = Inr True
               \<and> click D btn (sleep D 2000 w1) = (None, w3))
           \<and> see_more D (snd (show_more D all_job_cards st)) = Break r st2"
      by (rule conjI [OF h g])
  qed
  show ?thesis
    by (rule conjI [OF a conjI [OF b conjI [OF c d]]])
qed

text \<open>
  On the simulated browser, after two cards: with two more cards to load the block
  clicks `Show more'; with no button and a link to a next page it navigates and resets
  both counters; with neither it breaks with no-continuation.
\<close>

lemma continuation_block_on_sim:
  "continuation sim_driver 10 [1, 2]
       ((initial_state (sim_page [1, 2] [3, 4]) Map.empty)\<lparr>jobs := [sim_job, sim_job]\<rparr>)
     = Continue ((initial_state ((sim_page [1, 2, 3, 4] [])\<lparr>clicked := [900]\<rparr>) Map.empty)
                   \<lparr>jobs := [sim_job, sim_job], scraped_card_count := 2\<rparr>)
   \<and> continuation sim_driver 10 [1, 2]
       ((initial_state ((sim_page [1, 2] [])\<lparr>more_url := Some (lit ''https://www.glassdoor.com/more''),
                                              next_page := [7, 8]\<rparr>) Map.empty)
          \<lparr>jobs := [sim_job, sim_job], scraped_card_count := 2\<rparr>)
     = Continue ((initial_state ((sim_page [7, 8] [])\<lparr>next_page := [7, 8]\<rparr>) Map.empty)
                   \<lparr>jobs := [sim_job, sim_job]\<rparr>)
   \<and> continuation sim_driver 10 [1, 2]
       ((initial_state (sim_page [1, 2] []) Map.empty)\<lparr>jobs := [sim_job, sim_job]\<rparr>)
     = Break NoContinuation
         ((initial_state (sim_page [1, 2] []) Map.empty)\<lparr>jobs := [sim_job, sim_job]\<rparr>)"
  by (simp add: continuation_def sim_show_more sim_show_more_absent sim_see_more
      sim_see_more_absent initial_state_def sim_page_def lit_def)

section \<open>Line 234\<close>

text \<open>
  What the failing statement of line 234 means for every browser: a pass that finds
  cards and gets through the \<^verbatim>\<open>for\<close> loop ends in \<^verbatim>\<open>AttributeError\<close>; the loop can
  only finish normally with the records it started with; \<^verbatim>\<open>get_jobs\<close> always ends,
  returns no record when it returns, and never writes a file, and neither does the
  script.
\<close>

lemma loop_body_break:
  "loop_body D n st = Break r st1 \<Longrightarrow> jobs st1 = jobs st \<and> (r = NoListings \<or> r = NoCards)"
  by (auto simp: loop_body_def list_to_csv_def Let_def
      split: prod.splits sum.splits option.splits if_splits)

lemma loop_body_persist:
  "wait_presence D 10 listing_css (driver st) = (Inr found, w1) \<Longrightarrow>
   find_job_cards D w1 = Inr cs \<Longrightarrow> cs \<noteq> [] \<Longrightarrow>
   for_cards D n (drop (scraped_card_count st) cs) (st\<lparr>driver := w1\<rparr>) = (None, st1) \<Longrightarrow>
   loop_body D n st = Raise AttributeError st1"
  by (simp add: loop_body_def list_to_csv_def)

lemma while_loop_finished:
  "while_loop D n st = Some (Finished r st1) \<Longrightarrow> jobs st1 = jobs st"
proof -
  assume w: "while_loop D n st = Some (Finished r st1)"
  from while_loop_result [OF w] show ?thesis
  proof
    assume "Finished r st1 = Finished ConditionFalse st"
    then show ?thesis by simp
  next
    assume a: "int (length (jobs st)) < n \<and> page_num st \<le> max_pages
        \<and> state_of (Finished r st1) = step_state (loop_body D n st)"
    show ?thesis
    proof (cases "loop_body D n st")
      case (Continue st2)
      then show ?thesis using loop_body_not_continue by blast
    next
      case (Break r2 st2)
      then show ?thesis using a loop_body_break [OF Break] by simp
    next
      case (Raise e st2)
      then show ?thesis using a w while_loop_raise [of st n D e st2] by simp
    qed
  qed
qed

lemma while_loop_files:
  "while_loop D n st = Some f \<Longrightarrow> files (state_of f) = files st"
  using while_loop_result [of D n st f] loop_body_frame [of D n st] by auto

lemma get_jobs_total: "\<exists>r. get_jobs D keyword n headless verbose w fs = Some r"
proof -
  obtain r w0 where o: "open_session D (build_options (getcwd D)) keyword w = (r, w0)"
    by (cases "open_session D (build_options (getcwd D)) keyword w")
  obtain f where l: "while_loop D n (initial_state w0 fs) = Some f"
    using while_loop_total by blast
  show ?thesis using o l
    by (cases r; cases f) (simp_all add: get_jobs_def)
qed

lemma get_jobs_returns_nothing:
  "get_jobs D keyword n headless verbose w fs = Some (Inr df, w1, fs1) \<Longrightarrow> df = DataFrame []"
proof -
  assume g: "get_jobs D keyword n headless verbose w fs = Some (Inr df, w1, fs1)"
  obtain r w0 where o: "open_session D (build_options (getcwd D)) keyword w = (r, w0)"
    by (cases "open_session D (build_options (getcwd D)) keyword w")
  from g o obtain x st1 where l: "while_loop D n (initial_state w0 fs) = Some (Finished x st1)"
    and d: "df = DataFrame (jobs st1)"
    by (auto simp: get_jobs_def split: option.splits finish.splits)
  from while_loop_finished [OF l] d show ?thesis
    by (simp add: initial_state_def)
qed

lemma get_jobs_never_writes:
  "get_jobs D keyword n headless verbose w fs = Some (r, w1, fs1) \<Longrightarrow> fs1 = fs"
proof -
  assume g: "get_jobs D keyword n headless verbose w fs = Some (r, w1, fs1)"
  obtain x w0 where o: "open_session D (build_options (getcwd D)) keyword w = (x, w0)"
    by (cases "open_session D (build_options (getcwd D)) keyword w")
  show ?thesis
  proof (cases x)
    case (Some e)
    then show ?thesis using g o by (simp add: get_jobs_def)
  next
    case None
    obtain f where l: "while_loop D n (initial_state w0 fs) = Some f"
      using while_loop_total by blast
    from while_loop_files [OF l] have "files (state_of f) = fs"
      by (simp add: initial_state_def)
    then show ?thesis using g o None l
      by (cases f) (simp_all add: get_jobs_def)
  qed
qed

lemma main_never_writes:
  "main D w fs = Some (r, w1, fs1) \<Longrightarrow> fs1 = fs"
proof -
  assume m: "main D w fs = Some (r, w1, fs1)"
  obtain x w2 fs2 where g: "get_jobs D (lit ''data scientist'') 2000 False True w fs = Some (x, w2, fs2)"
    using get_jobs_total [of D "lit ''data scientist''" 2000 False True w fs] by (metis prod_cases3)
  have f: "fs2 = fs" using get_jobs_never_writes [OF g] .
  show ?thesis
  proof (cases x)
    case (Inl e)
    then show ?thesis using m g f by (simp add: main_def)
  next
    case (Inr df)
    then have "get_jobs D (lit ''data scientist'') 2000 False True w fs = Some (Inr df, w2, fs2)"
      using g by simp
    then have "df = DataFrame []" by (rule get_jobs_returns_nothing)
    then show ?thesis using m g f Inr by (simp add: main_def DataFrame_def)
  qed
qed

lemma sim_one_card_body:
  "0 < n \<Longrightarrow> loop_body sim_driver n (initial_state (sim_page [1] []) Map.empty)
   = Raise AttributeError
      \<lparr>jobs = [sim_job], page_num = 1, scraped_card_count = 0,
       driver = (sim_page [1] [])\<lparr>clicked := [1]\<rparr>, files = Map.empty\<rparr>"
  by (simp add: loop_body_def find_job_cards_def sim_ops initial_state_def sim_page_def
      sim_process_card list_to_csv_def)

lemma sim_one_card_loop:
  "0 < n \<Longrightarrow> while_loop sim_driver n (initial_state (sim_page [1] []) Map.empty)
   = Some (Aborted AttributeError
      \<lparr>jobs = [sim_job], page_num = 1, scraped_card_count = 0,
       driver = (sim_page [1] [])\<lparr>clicked := [1]\<rparr>, files = Map.empty\<rparr>)"
proof -
  assume n: "0 < n"
  let ?st = "initial_state (sim_page [1] []) Map.empty"
  have p: "page_num ?st \<le> max_pages"
    by (simp add: initial_state_def max_pages_def)
  have l: "int (length (jobs ?st)) < n"
    using n by (simp add: initial_state_def)
  show ?thesis
    by (rule while_loop_raise [OF l p sim_one_card_body [OF n]])
qed

text \<open>
  C1 fails on the program. On a page with one card and a target of one, the card is
  dispatched and line 234 then raises \<^verbatim>\<open>AttributeError\<close>: \<^verbatim>\<open>get_jobs\<close> ends with that
  exception and the file system is as it was, with no file at \<^verbatim>\<open>glassdoor_jobs.csv\<close>.
  The script of line 313 ends the same way and writes nothing either.
\<close>

theorem persist_raises:
  "get_jobs sim_driver (lit ''data scientist'') 1 False True (sim_page [1] []) Map.empty
     = Some (Inl AttributeError, (sim_page [1] [])\<lparr>clicked := [1]\<rparr>, Map.empty)
   \<and> main sim_driver (sim_page [1] []) Map.empty
     = Some (Some AttributeError, (sim_page [1] [])\<lparr>clicked := [1]\<rparr>, Map.empty)
   \<and> list_to_csv [sim_job] ''glassdoor_jobs.csv'' Map.empty = (Some AttributeError, Map.empty)"
proof -
  have a: "get_jobs sim_driver (lit ''data scientist'') 1 False True (sim_page [1] []) Map.empty
     = Some (Inl AttributeError, (sim_page [1] [])\<lparr>clicked := [1]\<rparr>, Map.empty)"
    using sim_one_card_loop [of 1]
    by (simp add: get_jobs_def sim_open sim_page_sel)
  have b: "get_jobs sim_driver (lit ''data scientist'') 2000 False True (sim_page [1] []) Map.empty
     = Some (Inl AttributeError, (sim_page [1] [])\<lparr>clicked := [1]\<rparr>, Map.empty)"
    using sim_one_card_loop [of 2000]
    by (simp add: get_jobs_def sim_open sim_page_sel)
  have c: "main sim_driver (sim_page [1] []) Map.empty
     = Some (Some AttributeError, (sim_page [1] [])\<lparr>clicked := [1]\<rparr>, Map.empty)"
    using b by (simp add: main_def)
  have d: "list_to_csv [sim_job] ''glassdoor_jobs.csv'' Map.empty = (Some AttributeError, Map.empty)"
    by (simp add: list_to_csv_def)
  from a c d show ?thesis by blast
qed

lemma sim_scenario_body:
  "loop_body sim_driver 10 (initial_state (sim_page [1, 2, 3, 4, 5] [6, 7, 8, 9, 10, 11, 12, 13, 14, 15]) Map.empty)
   = Raise AttributeError
      \<lparr>jobs = replicate 5 sim_job, page_num = 1, scraped_card_count = 0,
       driver = (sim_page [1, 2, 3, 4, 5] [6, 7, 8, 9, 10, 11, 12, 13, 14, 15])\<lparr>clicked := [1, 2, 3, 4, 5]\<rparr>,
       files = Map.empty\<rparr>"
  by (simp add: loop_body_def find_job_cards_def sim_ops initial_state_def sim_page_def sim_process_card list_to_csv_def numeral_eq_Suc)

text \<open>
  C6 fails on the program at its own example. Five cards are shown, ten more would be
  loaded by `Show more', the target is ten: the five cards are dispatched (five clicks,
  five records), line 234 raises \<^verbatim>\<open>AttributeError\<close>, and the run ends there. The
  `Show more' button (element 900) is never clicked, the ten pending cards are never
  loaded, and there is no second pass.
\<close>

theorem show_more_never_reached:
  "while_loop sim_driver 10
       (initial_state (sim_page [1, 2, 3, 4, 5] [6, 7, 8, 9, 10, 11, 12, 13, 14, 15]) Map.empty)
     = Some (Aborted AttributeError
         \<lparr>jobs = replicate 5 sim_job, page_num = 1, scraped_card_count = 0,
          driver = (sim_page [1, 2, 3, 4, 5] [6, 7, 8, 9, 10, 11, 12, 13, 14, 15])
                     \<lparr>clicked := [1, 2, 3, 4, 5]\<rparr>,
          files = Map.empty\<rparr>)
   \<and> get_jobs sim_driver (lit ''data scientist'') 10 False True
       (sim_page [1, 2, 3, 4, 5] [6, 7, 8, 9, 10, 11, 12, 13, 14, 15]) Map.empty
     = Some (Inl AttributeError,
             (sim_page [1, 2, 3, 4, 5] [6, 7, 8, 9, 10, 11, 12, 13, 14, 15])
               \<lparr>clicked := [1, 2, 3, 4, 5]\<rparr>,
             Map.empty)"
proof -
  let ?st = "initial_state (sim_page [1, 2, 3, 4, 5] [6, 7, 8, 9, 10, 11, 12, 13, 14, 15]) Map.empty"
  have "int (length (jobs ?st)) < 10" "page_num ?st \<le> max_pages"
    by (simp_all add: initial_state_def max_pages_def)
  from while_loop_raise [OF this sim_scenario_body]
  show ?thesis
    by (simp add: get_jobs_def sim_open sim_page_sel)
qed




end
